theory Spec2Isabelle
  imports Complex_Main "HOL-Library.Word"
begin

section \<open>Python values\<close>

text \<open>
  The server of \<^verbatim>\<open>server.py\<close> handles dynamically typed data: what \<^verbatim>\<open>json.load\<close>
  and \<^verbatim>\<open>response.json()\<close> return, the tool inputs, and the attributes of the client
  object. They are modelled by one datatype of Python values. A Python \<^verbatim>\<open>int\<close> is an
  \<open>int\<close>; a Python \<^verbatim>\<open>float\<close> is idealised as a \<open>real\<close> (rounding is not modelled).
  A \<^verbatim>\<open>dict\<close> with string keys is an association list; a key is looked up with
  \<open>map_of\<close>.
\<close>

datatype pyval =
    PNone
  | PBool bool
  | PInt int
  | PFloat real
  | PStr string
  | PList "pyval list"
  | PDict "(string \<times> pyval) list"

type_synonym byte = "8 word"

text \<open>Truth value testing (\<^verbatim>\<open>if x\<close>, \<^verbatim>\<open>not x\<close>, \<^verbatim>\<open>x or y\<close>, \<^verbatim>\<open>all([..])\<close>).\<close>

fun truthy :: "pyval \<Rightarrow> bool" where
  "truthy PNone = False"
| "truthy (PBool b) = b"
| "truthy (PInt i) = (i \<noteq> 0)"
| "truthy (PFloat r) = (r \<noteq> 0)"
| "truthy (PStr s) = (s \<noteq> [])"
| "truthy (PList xs) = (xs \<noteq> [])"
| "truthy (PDict kvs) = (kvs \<noteq> [])"

text \<open>The numeric value of an operand of \<^verbatim>\<open>+\<close>, \<^verbatim>\<open>-\<close> or \<^verbatim>\<open><\<close> against a number;
  \<open>None\<close> where Python raises \<^verbatim>\<open>TypeError\<close>. A \<^verbatim>\<open>bool\<close> is an \<^verbatim>\<open>int\<close> in Python.\<close>

fun num_of :: "pyval \<Rightarrow> real option" where
  "num_of (PInt i) = Some (of_int i)"
| "num_of (PFloat r) = Some r"
| "num_of (PBool b) = Some (if b then 1 else 0)"
| "num_of _ = None"

text \<open>The exceptions that occur. Only the message of a \<^verbatim>\<open>ValueError\<close> is built by the
  program; the text of the others comes from Python and its libraries.\<close>

datatype io_op =
    Makedirs string
  | OpenRead string
  | OpenWrite string
  | WriteData string
  | MkTemp string
  | Extract string

datatype exn =
    ValueError string
  | KeyError string
  | TypeError
  | AttributeError
  | RequestException
  | HTTPError int
  | JSONDecodeError
  | OSError io_op
  | BadZipFile

section \<open>The environment and the world\<close>

text \<open>
  The HTTP client, the clock, the file system's faults and Python's text rendering are
  capabilities of the environment. A request's answer may depend on how many requests
  were sent before it.
\<close>

datatype request =
    Post string "(string \<times> pyval) list"
  | Get string "(string \<times> pyval) list" "(string \<times> string) list"
  | GetStream string nat

record response =
  status_code :: int
  headers :: "(string \<times> string) list"
  content :: "byte list"
  json_body :: "pyval option"

datatype http_result = Failed | Reply response

record env =
  clock :: "nat \<Rightarrow> real"
  http :: "nat \<Rightarrow> request \<Rightarrow> http_result"
  io_fails :: "io_op \<Rightarrow> bool"
  home_dir :: string
  getenv :: "string \<Rightarrow> string option"
  tmp_stem :: string
  partial_write :: nat
  partial_extract :: nat
  json_parse :: "byte list \<Rightarrow> pyval option"
  zip_read :: "byte list \<Rightarrow> (string \<times> byte list) list option"
  str_other :: "pyval \<Rightarrow> string"
  exn_text :: "exn \<Rightarrow> string"

text \<open>
  A file holds the text that \<^verbatim>\<open>json.dump\<close> writes for a value (\<open>Json\<close>), a proper
  prefix of such a text, left by a write that did not finish (\<open>Truncated\<close>; it is not
  valid JSON), or other bytes.
\<close>

datatype fdata = Json pyval | Truncated pyval | Bytes "byte list"

record world =
  files :: "string \<Rightarrow> fdata option"
  dirs :: "string set"
  sent :: "request list"
  ticks :: nat

definition time_time :: "env \<Rightarrow> world \<Rightarrow> real \<times> world" where
  "time_time e w = (clock e (ticks w), w\<lparr>ticks := Suc (ticks w)\<rparr>)"

definition send :: "env \<Rightarrow> request \<Rightarrow> world \<Rightarrow> http_result \<times> world" where
  "send e rq w = (http e (length (sent w)) rq, w\<lparr>sent := sent w @ [rq]\<rparr>)"

text \<open>\<^verbatim>\<open>response.raise_for_status()\<close> of the requests library raises for a status
  from 400 to 599.\<close>

definition raise_for_status :: "response \<Rightarrow> exn + unit" where
  "raise_for_status r =
     (if 400 \<le> status_code r \<and> status_code r < 600 then Inl (HTTPError (status_code r))
      else Inr ())"

definition response_json :: "response \<Rightarrow> exn + pyval" where
  "response_json r = (case json_body r of None \<Rightarrow> Inl JSONDecodeError | Some v \<Rightarrow> Inr v)"

text \<open>\<^verbatim>\<open>str(x)\<close> and the rendering of \<^verbatim>\<open>{x}\<close> in an f-string.\<close>

definition py_str :: "env \<Rightarrow> pyval \<Rightarrow> string" where
  "py_str e v = (case v of PStr s \<Rightarrow> s | _ \<Rightarrow> str_other e v)"

definition str_exn :: "env \<Rightarrow> exn \<Rightarrow> string" where
  "str_exn e x = (case x of ValueError m \<Rightarrow> m | _ \<Rightarrow> exn_text e x)"

subsection \<open>Dictionaries\<close>

text \<open>\<^verbatim>\<open>d.get(k, default)\<close>: only a dict has the method.\<close>

definition dict_get :: "(string \<times> pyval) list \<Rightarrow> string \<Rightarrow> pyval \<Rightarrow> pyval" where
  "dict_get kvs k dflt = (case map_of kvs k of None \<Rightarrow> dflt | Some v \<Rightarrow> v)"

definition py_get :: "pyval \<Rightarrow> string \<Rightarrow> pyval \<Rightarrow> exn + pyval" where
  "py_get d k dflt =
     (case d of
        PDict kvs \<Rightarrow> Inr (dict_get kvs k dflt)
      | _ \<Rightarrow> Inl AttributeError)"

text \<open>\<^verbatim>\<open>d[k]\<close> with a string key.\<close>

definition py_index :: "pyval \<Rightarrow> string \<Rightarrow> exn + pyval" where
  "py_index d k =
     (case d of
        PDict kvs \<Rightarrow> (case map_of kvs k of None \<Rightarrow> Inl (KeyError k) | Some v \<Rightarrow> Inr v)
      | _ \<Rightarrow> Inl TypeError)"

fun is_substring :: "string \<Rightarrow> string \<Rightarrow> bool" where
  "is_substring xs [] = (xs = [])"
| "is_substring xs (y # ys) = (take (length xs) (y # ys) = xs \<or> is_substring xs ys)"

text \<open>\<^verbatim>\<open>k in d\<close> with a string \<open>k\<close>: a key of a dict, an element of a list, a substring
  of a string; anything else is not iterable.\<close>

definition py_in :: "string \<Rightarrow> pyval \<Rightarrow> exn + bool" where
  "py_in k d =
     (case d of
        PDict kvs \<Rightarrow> Inr (k \<in> set (map fst kvs))
      | PList xs \<Rightarrow> Inr (PStr k \<in> set xs)
      | PStr s \<Rightarrow> Inr (is_substring k s)
      | _ \<Rightarrow> Inl TypeError)"

subsection \<open>Paths and files\<close>

text \<open>\<^verbatim>\<open>os.path.join(a, b)\<close> and \<^verbatim>\<open>os.path.dirname(p)\<close> of \<^verbatim>\<open>posixpath\<close>.\<close>

definition path_join :: "string \<Rightarrow> string \<Rightarrow> string" where
  "path_join a b =
     (if b \<noteq> [] \<and> hd b = CHR ''/'' then b
      else if a = [] \<or> last a = CHR ''/'' then a @ b
      else a @ ''/'' @ b)"

definition rstrip_slash :: "string \<Rightarrow> string" where
  "rstrip_slash s = rev (dropWhile (\<lambda>c. c = CHR ''/'') (rev s))"

definition dirname :: "string \<Rightarrow> string" where
  "dirname p =
     (let head = rev (dropWhile (\<lambda>c. c \<noteq> CHR ''/'') (rev p))
      in if head \<noteq> [] \<and> \<not> list_all (\<lambda>c. c = CHR ''/'') head then rstrip_slash head
         else head)"

definition default_credentials_file :: "env \<Rightarrow> string" where
  "default_credentials_file e = path_join (home_dir e) ''.sketchfab_credentials.json''"

text \<open>\<^verbatim>\<open>if not credentials_file\<close>: an absent or empty path is replaced by the default.\<close>

definition resolve_path :: "env \<Rightarrow> string option \<Rightarrow> string" where
  "resolve_path e p =
     (case p of None \<Rightarrow> default_credentials_file e
      | Some s \<Rightarrow> if s = [] then default_credentials_file e else s)"

definition path_exists :: "world \<Rightarrow> string \<Rightarrow> bool" where
  "path_exists w p = (files w p \<noteq> None \<or> p \<in> dirs w)"

text \<open>The directories above \<open>d\<close>: its prefixes that end before a separator.\<close>

definition ancestors :: "string \<Rightarrow> string list" where
  "ancestors d =
     map (\<lambda>i. take i d)
       (filter (\<lambda>i. d ! i = CHR ''/'' \<and> d ! (i - 1) \<noteq> CHR ''/'') [1..<length d])"

text \<open>\<^verbatim>\<open>os.makedirs(d, exist_ok=True)\<close>: fails on the empty path, on a path that is a
  file, and when the system refuses; otherwise \<open>d\<close> and the directories above it exist
  afterwards.\<close>

definition makedirs :: "env \<Rightarrow> string \<Rightarrow> world \<Rightarrow> exn + world" where
  "makedirs e d w =
     (if d = [] \<or> files w d \<noteq> None \<or> io_fails e (Makedirs d) then Inl (OSError (Makedirs d))
      else Inr (w\<lparr>dirs := dirs w \<union> set (ancestors d) \<union> {d}\<rparr>))"

text \<open>\<^verbatim>\<open>with open(p, 'r') as f: json.load(f)\<close>.\<close>

definition read_json :: "env \<Rightarrow> string \<Rightarrow> world \<Rightarrow> exn + pyval" where
  "read_json e p w =
     (if io_fails e (OpenRead p) then Inl (OSError (OpenRead p))
      else case files w p of
        None \<Rightarrow> Inl (OSError (OpenRead p))
      | Some (Json v) \<Rightarrow> Inr v
      | Some (Truncated v) \<Rightarrow> Inl JSONDecodeError
      | Some (Bytes b) \<Rightarrow> (case json_parse e b of None \<Rightarrow> Inl JSONDecodeError | Some v \<Rightarrow> Inr v))"

text \<open>\<^verbatim>\<open>with open(p, 'w') as f: json.dump(v, f)\<close>: opening truncates the file, so a
  write that fails afterwards leaves a prefix of the new text. Opening fails when the
  path is a directory or its directory does not exist.\<close>

definition write_json :: "env \<Rightarrow> string \<Rightarrow> pyval \<Rightarrow> world \<Rightarrow> (exn + unit) \<times> world" where
  "write_json e p v w =
     (if p \<in> dirs w \<or> io_fails e (OpenWrite p) then (Inl (OSError (OpenWrite p)), w)
      else if io_fails e (WriteData p)
        then (Inl (OSError (WriteData p)), w\<lparr>files := (files w)(p \<mapsto> Truncated v)\<rparr>)
      else (Inr (), w\<lparr>files := (files w)(p \<mapsto> Json v)\<rparr>))"

section \<open>The client\<close>

record client =
  access_token :: pyval
  refresh_token :: pyval
  client_id :: pyval
  client_secret :: pyval
  token_expiry :: pyval

definition api_url :: string where
  "api_url = ''https://api.sketchfab.com/v3''"

definition oauth_url :: string where
  "oauth_url = ''https://sketchfab.com/oauth2/token/''"

text \<open>\<^verbatim>\<open>SketchfabClient.__init__\<close>. An argument that is not supplied is \<open>PNone\<close>.\<close>

definition client_init :: "env \<Rightarrow> pyval \<Rightarrow> pyval \<Rightarrow> pyval \<Rightarrow> pyval \<Rightarrow> world \<Rightarrow> client \<times> world" where
  "client_init e tok rt cid cs w =
     (let c = \<lparr>access_token = tok, refresh_token = rt, client_id = cid, client_secret = cs,
               token_expiry = PNone\<rparr>
      in if truthy (access_token c) \<and> \<not> truthy (token_expiry c)
         then (let (now, w') = time_time e w
               in (c\<lparr>token_expiry := PFloat (now + 30 * 24 * 60 * 60)\<rparr>, w'))
         else (c, w))"

text \<open>The dictionary that \<^verbatim>\<open>store_updated_credentials\<close> serialises.\<close>

definition or_else :: "pyval \<Rightarrow> pyval \<Rightarrow> pyval" where
  "or_else v dflt = (if truthy v then v else dflt)"

definition credentials_dict :: "client \<Rightarrow> pyval" where
  "credentials_dict c =
     PDict [(''access_token'', or_else (access_token c) (PStr '''')),
            (''refresh_token'', or_else (refresh_token c) (PStr '''')),
            (''client_id'', or_else (client_id c) (PStr '''')),
            (''client_secret'', or_else (client_secret c) (PStr '''')),
            (''token_expiry'', or_else (token_expiry c) (PInt 0))]"

definition store_updated_credentials :: "env \<Rightarrow> client \<Rightarrow> string option \<Rightarrow> world \<Rightarrow> bool \<times> world" where
  "store_updated_credentials e c credentials_file w =
     (let p = resolve_path e credentials_file;
          credentials = credentials_dict c
      in case makedirs e (dirname p) w of
           Inl x \<Rightarrow> (False, w)
         | Inr w1 \<Rightarrow>
             (case write_json e p credentials w1 of
                (Inl x, w2) \<Rightarrow> (False, w2)
              | (Inr u, w2) \<Rightarrow> (True, w2)))"

definition refresh_form :: "client \<Rightarrow> (string \<times> pyval) list" where
  "refresh_form c =
     [(''grant_type'', PStr ''refresh_token''),
      (''client_id'', client_id c),
      (''client_secret'', client_secret c),
      (''refresh_token'', refresh_token c)]"

text \<open>The part of \<^verbatim>\<open>refresh_access_token\<close> after \<^verbatim>\<open>token_data = response.json()\<close>.
  The attributes are assigned one by one, so an exception raised by the addition of
  \<^verbatim>\<open>expires_in\<close> comes after the tokens were overwritten.\<close>

definition apply_token_data :: "env \<Rightarrow> client \<Rightarrow> pyval \<Rightarrow> world \<Rightarrow> bool \<times> client \<times> world" where
  "apply_token_data e c token_data w =
     (case token_data of
        PDict kvs \<Rightarrow>
          (let c1 = c\<lparr>access_token := dict_get kvs ''access_token'' PNone\<rparr>;
               c2 = (case map_of kvs ''refresh_token'' of None \<Rightarrow> c1
                     | Some v \<Rightarrow> c1\<lparr>refresh_token := v\<rparr>);
               (now, w1) = time_time e w
           in case map_of kvs ''expires_in'' of
                Some ttl \<Rightarrow>
                  (case num_of ttl of
                     None \<Rightarrow> (False, c2, w1)
                   | Some n \<Rightarrow>
                       (let c3 = c2\<lparr>token_expiry := PFloat (now + n)\<rparr>;
                            (ok, w2) = store_updated_credentials e c3 None w1
                        in (True, c3, w2)))
              | None \<Rightarrow>
                  (let c3 = c2\<lparr>token_expiry := PFloat (now + 30 * 24 * 60 * 60)\<rparr>;
                       (ok, w2) = store_updated_credentials e c3 None w1
                   in (True, c3, w2)))
      | _ \<Rightarrow> (False, c, w))"

definition refresh_access_token :: "env \<Rightarrow> client \<Rightarrow> world \<Rightarrow> bool \<times> client \<times> world" where
  "refresh_access_token e c w =
     (if \<not> (truthy (refresh_token c) \<and> truthy (client_id c) \<and> truthy (client_secret c))
      then (False, c, w)
      else (let (res, w1) = send e (Post oauth_url (refresh_form c)) w
            in case res of
                 Failed \<Rightarrow> (False, c, w1)
               | Reply r \<Rightarrow>
                   (case raise_for_status r of
                      Inl x \<Rightarrow> (False, c, w1)
                    | Inr u \<Rightarrow>
                        (case response_json r of
                           Inl x \<Rightarrow> (False, c, w1)
                         | Inr token_data \<Rightarrow> apply_token_data e c token_data w1))))"

text \<open>\<^verbatim>\<open>ensure_valid_token\<close>. The comparison raises \<^verbatim>\<open>TypeError\<close> when the expiry is a
  truthy value that is not a number; the method has no handler of its own.\<close>

definition ensure_valid_token :: "env \<Rightarrow> client \<Rightarrow> world \<Rightarrow> (exn + bool) \<times> client \<times> world" where
  "ensure_valid_token e c w =
     (if \<not> truthy (access_token c) then (Inr False, c, w)
      else if truthy (token_expiry c)
        then (let (now, w1) = time_time e w
              in case num_of (token_expiry c) of
                   None \<Rightarrow> (Inl TypeError, c, w1)
                 | Some expiry \<Rightarrow>
                     if now > expiry - 300
                     then (let (ok, c2, w2) = refresh_access_token e c w1 in (Inr ok, c2, w2))
                     else (Inr True, c, w1))
      else (Inr True, c, w))"

text \<open>\<^verbatim>\<open>load_from_file\<close>: no client when the file is missing or when anything raises.\<close>

definition load_from_file :: "env \<Rightarrow> string option \<Rightarrow> world \<Rightarrow> client option \<times> world" where
  "load_from_file e path w =
     (let p = resolve_path e path
      in if \<not> path_exists w p then (None, w)
         else case read_json e p w of
                Inl x \<Rightarrow> (None, w)
              | Inr credentials \<Rightarrow>
                  (case credentials of
                     PDict kvs \<Rightarrow>
                       (let (c, w1) = client_init e (dict_get kvs ''access_token'' (PStr ''''))
                                        (dict_get kvs ''refresh_token'' (PStr ''''))
                                        (dict_get kvs ''client_id'' (PStr ''''))
                                        (dict_get kvs ''client_secret'' (PStr '''')) w
                        in (Some (case map_of kvs ''token_expiry'' of
                                    None \<Rightarrow> c
                                  | Some v \<Rightarrow> if truthy v then c\<lparr>token_expiry := v\<rparr> else c), w1))
                   | _ \<Rightarrow> (None, w)))"

definition get_auth_headers ::
  "env \<Rightarrow> client \<Rightarrow> world \<Rightarrow> (exn + (string \<times> string) list) \<times> client \<times> world" where
  "get_auth_headers e c w =
     (case ensure_valid_token e c w of
        (Inl x, c1, w1) \<Rightarrow> (Inl x, c1, w1)
      | (Inr ok, c1, w1) \<Rightarrow>
          (Inr (if truthy (access_token c1)
                then [(''Authorization'', ''Bearer '' @ py_str e (access_token c1))]
                else []), c1, w1))"

section \<open>Search\<close>

text \<open>\<^verbatim>\<open>min(limit, 24)\<close> returns its first argument unless the second is smaller, and
  raises \<^verbatim>\<open>TypeError\<close> when the two cannot be compared.\<close>

definition py_min_24 :: "pyval \<Rightarrow> exn + pyval" where
  "py_min_24 limit =
     (case num_of limit of
        None \<Rightarrow> Inl TypeError
      | Some n \<Rightarrow> Inr (if 24 < n then PInt 24 else limit))"

definition search_params :: "pyval \<Rightarrow> pyval \<Rightarrow> exn + (string \<times> pyval) list" where
  "search_params query limit =
     (if truthy limit
      then (case py_min_24 limit of
              Inl x \<Rightarrow> Inl x
            | Inr n \<Rightarrow> Inr [(''q'', query), (''count'', n)])
      else Inr [(''q'', query)])"

text \<open>\<^verbatim>\<open>x[0]\<close>.\<close>

definition py_first :: "pyval \<Rightarrow> pyval option" where
  "py_first v =
     (case v of
        PList (x # xs) \<Rightarrow> Some x
      | PStr (ch # cs) \<Rightarrow> Some (PStr [ch])
      | _ \<Rightarrow> None)"

text \<open>Inside \<^verbatim>\<open>search\<close> every exception ends in the same handler, so the steps that can
  raise return an option: \<open>None\<close> is an exception of any kind.\<close>

definition opt :: "exn + 'a \<Rightarrow> 'a option" where
  "opt r = (case r of Inl x \<Rightarrow> None | Inr v \<Rightarrow> Some v)"

definition thumbnail_url :: "(string \<times> pyval) list \<Rightarrow> pyval option" where
  "thumbnail_url m =
     (if truthy (dict_get m ''thumbnails'' PNone)
      then (case opt (py_get (dict_get m ''thumbnails'' (PDict [])) ''images'' (PList [PDict []])) of
              None \<Rightarrow> None
            | Some images \<Rightarrow>
                (case py_first images of
                   None \<Rightarrow> None
                 | Some img \<Rightarrow> opt (py_get img ''url'' (PStr ''''))))
      else Some (PStr ''''))"

definition user_name :: "(string \<times> pyval) list \<Rightarrow> pyval option" where
  "user_name m =
     (if truthy (dict_get m ''user'' PNone)
      then opt (py_get (dict_get m ''user'' (PDict [])) ''username'' (PStr ''''))
      else Some (PStr ''''))"

fun format_sizes :: "(string \<times> pyval) list \<Rightarrow> (string \<times> pyval) list option" where
  "format_sizes [] = Some []"
| "format_sizes ((format_name, format_data) # rest) =
     (if truthy format_data
      then (case opt (py_get format_data ''size'' (PInt 0)) of
              None \<Rightarrow> None
            | Some sz \<Rightarrow> map_option (\<lambda>fs. (format_name, sz) # fs) (format_sizes rest))
      else format_sizes rest)"

definition formats :: "(string \<times> pyval) list \<Rightarrow> pyval option" where
  "formats m =
     (case dict_get m ''archives'' (PDict []) of
        PDict archives \<Rightarrow> map_option PDict (format_sizes archives)
      | _ \<Rightarrow> None)"

definition model_data :: "(string \<times> pyval) list \<Rightarrow> pyval \<Rightarrow> pyval option" where
  "model_data m isDownloadable =
     (case thumbnail_url m of
        None \<Rightarrow> None
      | Some thumb \<Rightarrow>
          (case user_name m of
             None \<Rightarrow> None
           | Some usr \<Rightarrow>
               (case formats m of
                  None \<Rightarrow> None
                | Some fmts \<Rightarrow>
                    Some (PDict [(''uid'', dict_get m ''uid'' (PStr '''')),
                                 (''name'', dict_get m ''name'' (PStr '''')),
                                 (''description'', dict_get m ''description'' (PStr '''')),
                                 (''viewerUrl'', dict_get m ''viewerUrl'' (PStr '''')),
                                 (''embedUrl'', dict_get m ''embedUrl'' (PStr '''')),
                                 (''thumbnailUrl'', thumb),
                                 (''user'', usr),
                                 (''isDownloadable'', isDownloadable),
                                 (''formats'', fmts)]))))"

text \<open>The loop over \<^verbatim>\<open>data["results"]["models"]\<close>: a model that is not downloadable is
  skipped; an exception at any model discards everything.\<close>

fun collect_models :: "pyval list \<Rightarrow> pyval list option" where
  "collect_models [] = Some []"
| "collect_models (model # rest) =
     (case model of
        PDict m \<Rightarrow>
          (let isDownloadable = dict_get m ''isDownloadable'' (PBool False)
           in if \<not> truthy isDownloadable then collect_models rest
              else (case model_data m isDownloadable of
                      None \<Rightarrow> None
                    | Some md \<Rightarrow> map_option (\<lambda>mds. md # mds) (collect_models rest)))
      | _ \<Rightarrow> None)"

text \<open>What a \<^verbatim>\<open>for\<close> loop iterates over.\<close>

definition py_iter :: "pyval \<Rightarrow> pyval list option" where
  "py_iter v =
     (case v of
        PList xs \<Rightarrow> Some xs
      | PDict kvs \<Rightarrow> Some (map (\<lambda>kv. PStr (fst kv)) kvs)
      | PStr s \<Rightarrow> Some (map (\<lambda>ch. PStr [ch]) s)
      | _ \<Rightarrow> None)"

definition downloadable_models :: "pyval \<Rightarrow> pyval list option" where
  "downloadable_models data =
     (case opt (py_in ''results'' data) of
        None \<Rightarrow> None
      | Some False \<Rightarrow> Some []
      | Some True \<Rightarrow>
          (case opt (py_index data ''results'') of
             None \<Rightarrow> None
           | Some results \<Rightarrow>
               (case opt (py_in ''models'' results) of
                  None \<Rightarrow> None
                | Some False \<Rightarrow> Some []
                | Some True \<Rightarrow>
                    (case opt (py_index results ''models'') of
                       None \<Rightarrow> None
                     | Some models \<Rightarrow>
                         (case py_iter models of
                            None \<Rightarrow> None
                          | Some ms \<Rightarrow> collect_models ms)))))"

definition or_empty :: "pyval list option \<Rightarrow> pyval list" where
  "or_empty r = (case r of None \<Rightarrow> [] | Some xs \<Rightarrow> xs)"

text \<open>\<^verbatim>\<open>search\<close> sends no credentials; whatever fails, it returns the empty list.\<close>

definition search :: "env \<Rightarrow> pyval \<Rightarrow> pyval \<Rightarrow> world \<Rightarrow> pyval list \<times> world" where
  "search e query limit w =
     (case search_params query limit of
        Inl x \<Rightarrow> ([], w)
      | Inr params \<Rightarrow>
          (let (res, w1) = send e (Get (api_url @ ''/search'') params []) w
           in case res of
                Failed \<Rightarrow> ([], w1)
              | Reply r \<Rightarrow>
                  (case raise_for_status r of
                     Inl x \<Rightarrow> ([], w1)
                   | Inr u \<Rightarrow>
                       (case response_json r of
                          Inl x \<Rightarrow> ([], w1)
                        | Inr data \<Rightarrow> (or_empty (downloadable_models data), w1)))))"

section \<open>Authenticated requests\<close>

text \<open>The body shared by \<^verbatim>\<open>get_model\<close> and \<^verbatim>\<open>get_download_link\<close> from
  \<^verbatim>\<open>get_auth_headers\<close> on: any exception is raised again as a \<^verbatim>\<open>ValueError\<close> whose
  message starts with the given prefix.\<close>

definition authenticated_get ::
  "env \<Rightarrow> client \<Rightarrow> string \<Rightarrow> string \<Rightarrow> world \<Rightarrow> (exn + pyval) \<times> client \<times> world" where
  "authenticated_get e c url prefix w =
     (case get_auth_headers e c w of
        (Inl x, c1, w1) \<Rightarrow> (Inl (ValueError (prefix @ str_exn e x)), c1, w1)
      | (Inr hdrs, c1, w1) \<Rightarrow>
          (let (res, w2) = send e (Get url [] hdrs) w1
           in case res of
                Failed \<Rightarrow> (Inl (ValueError (prefix @ str_exn e RequestException)), c1, w2)
              | Reply r \<Rightarrow>
                  (case raise_for_status r of
                     Inl x \<Rightarrow> (Inl (ValueError (prefix @ str_exn e x)), c1, w2)
                   | Inr u \<Rightarrow>
                       (case response_json r of
                          Inl x \<Rightarrow> (Inl (ValueError (prefix @ str_exn e x)), c1, w2)
                        | Inr v \<Rightarrow> (Inr v, c1, w2)))))"

definition model_url :: "env \<Rightarrow> pyval \<Rightarrow> string" where
  "model_url e model_id = api_url @ ''/models/'' @ py_str e model_id"

definition download_url :: "env \<Rightarrow> pyval \<Rightarrow> string" where
  "download_url e model_id = api_url @ ''/models/'' @ py_str e model_id @ ''/download''"

definition get_model :: "env \<Rightarrow> client \<Rightarrow> pyval \<Rightarrow> world \<Rightarrow> (exn + pyval) \<times> client \<times> world" where
  "get_model e c model_id w =
     authenticated_get e c (model_url e model_id) ''Failed to get model details: '' w"

definition get_download_link ::
  "env \<Rightarrow> client \<Rightarrow> pyval \<Rightarrow> world \<Rightarrow> (exn + pyval) \<times> client \<times> world" where
  "get_download_link e c model_id w =
     (if \<not> truthy (access_token c)
      then (Inl (ValueError (''Failed to get download link: '' @
                   ''OAuth2 access token is required for downloading models'')), c, w)
      else authenticated_get e c (download_url e model_id) ''Failed to get download link: '' w)"

section \<open>Download\<close>













section \<open>Startup\<close>

record args =
  sketchfab_access_token :: "string option"
  sketchfab_refresh_token :: "string option"
  sketchfab_client_id :: "string option"
  sketchfab_client_secret :: "string option"
  credentials_file :: "string option"

text \<open>The five local variables of \<^verbatim>\<open>get_oauth_credentials\<close> after its \<^verbatim>\<open>try\<close> block:
  the values of the file when it exists, can be read and holds a JSON object, the empty
  defaults otherwise.\<close>

definition empty_credentials :: "(string \<times> pyval) list" where
  "empty_credentials =
     [(''access_token'', PStr ''''), (''refresh_token'', PStr ''''),
      (''client_id'', PStr ''''), (''client_secret'', PStr ''''),
      (''token_expiry'', PInt 0)]"

definition file_credentials :: "env \<Rightarrow> string \<Rightarrow> world \<Rightarrow> (string \<times> pyval) list" where
  "file_credentials e p w =
     (if path_exists w p
      then (case read_json e p w of
              Inl x \<Rightarrow> empty_credentials
            | Inr v \<Rightarrow>
                (case v of
                   PDict kvs \<Rightarrow>
                     [(''access_token'', dict_get kvs ''access_token'' (PStr '''')),
                      (''refresh_token'', dict_get kvs ''refresh_token'' (PStr '''')),
                      (''client_id'', dict_get kvs ''client_id'' (PStr '''')),
                      (''client_secret'', dict_get kvs ''client_secret'' (PStr '''')),
                      (''token_expiry'', dict_get kvs ''token_expiry'' (PInt 0))]
                 | _ \<Rightarrow> empty_credentials))
      else empty_credentials)"

text \<open>\<^verbatim>\<open>args.x or os.getenv(X, '') or x\<close>.\<close>

definition override :: "env \<Rightarrow> string option \<Rightarrow> string \<Rightarrow> pyval \<Rightarrow> pyval" where
  "override e arg var v =
     (case arg of
        Some s \<Rightarrow>
          if s \<noteq> [] then PStr s
          else (case getenv e var of
                  None \<Rightarrow> v
                | Some t \<Rightarrow> if t \<noteq> [] then PStr t else v)
      | None \<Rightarrow>
          (case getenv e var of
             None \<Rightarrow> v
           | Some t \<Rightarrow> if t \<noteq> [] then PStr t else v))"

text \<open>\<^verbatim>\<open>get_oauth_credentials\<close>, from the parsed arguments on. The comparison of the clock
  with the expiry, made to log a warning, is outside the \<^verbatim>\<open>try\<close> block.\<close>

definition get_oauth_credentials ::
  "env \<Rightarrow> args \<Rightarrow> world \<Rightarrow> (exn + (string \<times> pyval) list) \<times> world" where
  "get_oauth_credentials e a w =
     (let p = resolve_path e (credentials_file a);
          f = file_credentials e p w;
          tok = override e (sketchfab_access_token a) ''SKETCHFAB_ACCESS_TOKEN''
                  (dict_get f ''access_token'' PNone);
          rt = override e (sketchfab_refresh_token a) ''SKETCHFAB_REFRESH_TOKEN''
                 (dict_get f ''refresh_token'' PNone);
          cid = override e (sketchfab_client_id a) ''SKETCHFAB_CLIENT_ID''
                  (dict_get f ''client_id'' PNone);
          cs = override e (sketchfab_client_secret a) ''SKETCHFAB_CLIENT_SECRET''
                 (dict_get f ''client_secret'' PNone);
          expiry = dict_get f ''token_expiry'' PNone;
          result = [(''access_token'', tok), (''refresh_token'', rt), (''client_id'', cid),
                    (''client_secret'', cs), (''token_expiry'', expiry)]
      in if truthy tok \<and> truthy expiry
         then (let (now, w1) = time_time e w
               in case num_of expiry of
                    None \<Rightarrow> (Inl TypeError, w1)
                  | Some x \<Rightarrow> (Inr result, w1))
         else (Inr result, w))"

text \<open>The start of \<^verbatim>\<open>main\<close>, up to the handlers: the access token found at startup, which
  the handlers capture, and the client.\<close>

definition startup :: "env \<Rightarrow> args \<Rightarrow> world \<Rightarrow> (exn + pyval \<times> client) \<times> world" where
  "startup e a w =
     (case get_oauth_credentials e a w of
        (Inl x, w1) \<Rightarrow> (Inl x, w1)
      | (Inr kvs, w1) \<Rightarrow>
          (let tok = dict_get kvs ''access_token'' PNone;
               expiry = dict_get kvs ''token_expiry'' (PInt 0);
               checked = (if truthy tok \<and> truthy expiry
                          then (let (now, w2) = time_time e w1
                                in case num_of expiry of
                                     None \<Rightarrow> (Inl TypeError, w2)
                                   | Some x \<Rightarrow> (Inr (), w2))
                          else (Inr (), w1))
           in case checked of
                (Inl x, w2) \<Rightarrow> (Inl x, w2)
              | (Inr u, w2) \<Rightarrow>
                  (let (c, w3) = client_init e tok (dict_get kvs ''refresh_token'' PNone)
                                   (dict_get kvs ''client_id'' PNone)
                                   (dict_get kvs ''client_secret'' PNone) w2
                   in (Inr (tok, if truthy expiry then c\<lparr>token_expiry := expiry\<rparr> else c), w3))))"

section \<open>The tool handlers\<close>

definition search_tool_name :: string where
  "search_tool_name = ''threejs_search_models''"

definition get_gltf_url_tool_name :: string where
  "get_gltf_url_tool_name = ''threejs_get_gltf_model_url''"

text \<open>The names of the tools that \<^verbatim>\<open>handle_list_tools\<close> lists.\<close>

definition handle_list_tools :: "pyval \<Rightarrow> string list" where
  "handle_list_tools tok =
     [search_tool_name] @ (if truthy tok then [get_gltf_url_tool_name] else [])"

text \<open>A text block whose text is \<^verbatim>\<open>json.dumps(v, indent=2)\<close>.\<close>

datatype text_content = TextContent pyval

definition error_content :: "env \<Rightarrow> exn \<Rightarrow> text_content list" where
  "error_content e x = [TextContent (PDict [(''error'', PStr (str_exn e x))])]"

definition quoted :: "string \<Rightarrow> string" where
  "quoted s = [CHR 0x27] @ s @ [CHR 0x27]"

text \<open>The branch of \<^verbatim>\<open>handle_invoke_tool\<close> for \<^verbatim>\<open>threejs_get_gltf_model_url\<close>, from the
  fetched model on.\<close>

definition gltf_from_links :: "env \<Rightarrow> pyval \<Rightarrow> pyval \<Rightarrow> pyval \<Rightarrow> exn + text_content list" where
  "gltf_from_links e model_id model_name download_links =
     (case py_in ''gltf'' download_links of
        Inl x \<Rightarrow> Inl x
      | Inr False \<Rightarrow>
          (case download_links of
             PDict kvs \<Rightarrow>
               Inr [TextContent (PDict
                 [(''error'', PStr (''GLTF format is not available for model '' @
                                    quoted (py_str e model_name) @ ''.'')),
                  (''available_formats'', PList (map (\<lambda>kv. PStr (fst kv)) kvs))])]
           | _ \<Rightarrow> Inl AttributeError)
      | Inr True \<Rightarrow>
          (case py_index download_links ''gltf'' of
             Inl x \<Rightarrow> Inl x
           | Inr g \<Rightarrow>
               (case py_index g ''url'' of
                  Inl x \<Rightarrow> Inl x
                | Inr gltf_url \<Rightarrow>
                    Inr [TextContent (PDict [(''model_name'', model_name),
                                             (''model_id'', model_id),
                                             (''gltf_url'', gltf_url)])])))"

definition get_gltf_model_url ::
  "env \<Rightarrow> client \<Rightarrow> (string \<times> pyval) list \<Rightarrow> world \<Rightarrow> (exn + text_content list) \<times> client \<times> world" where
  "get_gltf_model_url e c inputs w =
     (case py_index (PDict inputs) ''model_id'' of
        Inl x \<Rightarrow> (Inl x, c, w)
      | Inr model_id \<Rightarrow>
          (case get_model e c model_id w of
             (Inl x, c1, w1) \<Rightarrow> (Inl x, c1, w1)
           | (Inr model, c1, w1) \<Rightarrow>
               (case model of
                  PDict m \<Rightarrow>
                    (let model_name = dict_get m ''name'' model_id
                     in if \<not> truthy (dict_get m ''isDownloadable'' (PBool False))
                        then (Inr [TextContent (PDict
                                [(''error'', PStr (''Model '' @ quoted (py_str e model_name) @
                                                   '' is not downloadable.''))])], c1, w1)
                        else (case get_download_link e c1 model_id w1 of
                                (Inl x, c2, w2) \<Rightarrow> (Inl x, c2, w2)
                              | (Inr download_links, c2, w2) \<Rightarrow>
                                  (gltf_from_links e model_id model_name download_links,
                                   c2, w2)))
                | _ \<Rightarrow> (Inl AttributeError, c1, w1))))"

text \<open>\<^verbatim>\<open>handle_invoke_tool\<close>; \<open>tok\<close> is the access token that \<^verbatim>\<open>main\<close> found at startup.
  Every exception becomes an error payload.\<close>

definition invoke :: "env \<Rightarrow> pyval \<Rightarrow> client \<Rightarrow> string \<Rightarrow> (string \<times> pyval) list \<Rightarrow> world
    \<Rightarrow> (exn + text_content list) \<times> client \<times> world" where
  "invoke e tok c name inputs w =
     (if name = search_tool_name
      then (case py_index (PDict inputs) ''query'' of
              Inl x \<Rightarrow> (Inl x, c, w)
            | Inr query \<Rightarrow>
                (let limit = dict_get inputs ''limit'' (PInt 10);
                     (results, w1) = search e query limit w
                 in (Inr [TextContent (PDict [(''models'', PList results)])], c, w1)))
      else if name = get_gltf_url_tool_name \<and> truthy tok
      then get_gltf_model_url e c inputs w
      else (Inl (ValueError (''Unknown tool: '' @ name)), c, w))"

definition handle_invoke_tool :: "env \<Rightarrow> pyval \<Rightarrow> client \<Rightarrow> string \<Rightarrow> (string \<times> pyval) list
    \<Rightarrow> world \<Rightarrow> text_content list \<times> client \<times> world" where
  "handle_invoke_tool e tok c name inputs w =
     (case invoke e tok c name inputs w of
        (Inl x, c1, w1) \<Rightarrow> (error_content e x, c1, w1)
      | (Inr out, c1, w1) \<Rightarrow> (out, c1, w1))"

section \<open>Predicates used in the statements\<close>

definition is_dict :: "pyval \<Rightarrow> bool" where
  "is_dict v = (case v of PDict kvs \<Rightarrow> True | _ \<Rightarrow> False)"

text \<open>No value comes from the command line or from the environment.\<close>

definition unset :: "string option \<Rightarrow> bool" where
  "unset x = (case x of None \<Rightarrow> True | Some s \<Rightarrow> s = [])"

definition no_overrides :: "env \<Rightarrow> args \<Rightarrow> bool" where
  "no_overrides e a =
     (unset (sketchfab_access_token a) \<and> unset (sketchfab_refresh_token a) \<and>
      unset (sketchfab_client_id a) \<and> unset (sketchfab_client_secret a) \<and>
      unset (getenv e ''SKETCHFAB_ACCESS_TOKEN'') \<and> unset (getenv e ''SKETCHFAB_REFRESH_TOKEN'') \<and>
      unset (getenv e ''SKETCHFAB_CLIENT_ID'') \<and> unset (getenv e ''SKETCHFAB_CLIENT_SECRET''))"

text \<open>The credentials file cannot be used: it cannot be read or parsed, or what it holds
  is not a JSON object.\<close>

definition malformed :: "env \<Rightarrow> string \<Rightarrow> world \<Rightarrow> bool" where
  "malformed e p w = (case read_json e p w of Inl x \<Rightarrow> True | Inr v \<Rightarrow> \<not> is_dict v)"

text \<open>The refresh request got no usable answer: the transport failed, the status is an
  error status, or the body is not a JSON object.\<close>

definition no_token_data :: "http_result \<Rightarrow> bool" where
  "no_token_data res =
     (case res of
        Failed \<Rightarrow> True
      | Reply r \<Rightarrow>
          (400 \<le> status_code r \<and> status_code r < 600) \<or>
          (case json_body r of None \<Rightarrow> True | Some v \<Rightarrow> \<not> is_dict v))"

text \<open>Nothing stands in the way of writing the file \<open>p\<close>: its directory has a name, is
  not a file and can be created, \<open>p\<close> is not a directory, and opening and writing work.\<close>

definition can_store :: "env \<Rightarrow> string \<Rightarrow> world \<Rightarrow> bool" where
  "can_store e p w =
     (dirname p \<noteq> [] \<and> files w (dirname p) = None \<and> \<not> io_fails e (Makedirs (dirname p)) \<and>
      p \<notin> dirs w \<and> p \<notin> set (ancestors (dirname p)) \<and> p \<noteq> dirname p \<and>
      \<not> io_fails e (OpenWrite p) \<and> \<not> io_fails e (WriteData p))"

section \<open>Concrete environments\<close>

definition example_env :: env where
  "example_env =
     \<lparr>clock = (\<lambda>n. 1700000000), http = (\<lambda>n rq. Failed), io_fails = (\<lambda>op. False),
      home_dir = ''/home/user'', getenv = (\<lambda>v. None), tmp_stem = ''/tmp/tmpmodel'',
      partial_write = 0, partial_extract = 0, json_parse = (\<lambda>bs. None),
      zip_read = (\<lambda>bs. None), str_other = (\<lambda>v. ''?''), exn_text = (\<lambda>x. ''error'')\<rparr>"

definition empty_world :: world where
  "empty_world = \<lparr>files = (\<lambda>p. None), dirs = {}, sent = [], ticks = 0\<rparr>"

definition json_reply :: "pyval \<Rightarrow> http_result" where
  "json_reply v = Reply \<lparr>status_code = 200, headers = [], content = [], json_body = Some v\<rparr>"

text \<open>A client whose token expired long before the clock of \<open>example_env\<close>, without and
  with a refresh token.\<close>

definition stale_client :: client where
  "stale_client =
     \<lparr>access_token = PStr ''old'', refresh_token = PStr '''', client_id = PStr ''id'',
      client_secret = PStr ''secret'', token_expiry = PFloat 1600000000\<rparr>"

definition refreshable_client :: client where
  "refreshable_client = stale_client\<lparr>refresh_token := PStr ''refresh''\<rparr>"

text \<open>A token endpoint that answers with a time to live that is a string.\<close>

definition bad_ttl_env :: env where
  "bad_ttl_env =
     example_env\<lparr>http := (\<lambda>n rq. json_reply
        (PDict [(''access_token'', PStr ''new''), (''expires_in'', PStr ''3600'')]))\<rparr>"

text \<open>A world that holds a valid credentials file at the default path, and an
  environment in which writing to that file fails after it was opened.\<close>

definition saved_world :: world where
  "saved_world =
     empty_world\<lparr>files := (\<lambda>p. None)(''/home/user/.sketchfab_credentials.json'' \<mapsto>
                     Json (credentials_dict refreshable_client)),
                 dirs := {''/home/user''}\<rparr>"

definition write_fault_env :: env where
  "write_fault_env =
     example_env\<lparr>io_fails := (\<lambda>op. op = WriteData ''/home/user/.sketchfab_credentials.json'')\<rparr>"

text \<open>A world whose credentials file was cut short.\<close>

definition broken_world :: world where
  "broken_world =
     empty_world\<lparr>files := (\<lambda>p. None)(''/home/user/.sketchfab_credentials.json'' \<mapsto>
                     Truncated (credentials_dict refreshable_client)),
                  dirs := {''/home/user''}\<rparr>"

definition no_args :: args where
  "no_args =
     \<lparr>sketchfab_access_token = None, sketchfab_refresh_token = None,
      sketchfab_client_id = None, sketchfab_client_secret = None, credentials_file = None\<rparr>"

text \<open>A client with a token and no expiry, and a catalog that answers every request with
  the detail of a model that is not downloadable.\<close>

definition fresh_client :: client where
  "fresh_client = stale_client\<lparr>token_expiry := PNone\<rparr>"

definition model_env :: env where
  "model_env =
     example_env\<lparr>http := (\<lambda>n rq. json_reply
        (PDict [(''name'', PStr ''Chair''), (''isDownloadable'', PBool False)]))\<rparr>"



section \<open>Facts about the environment's examples\<close>

lemma default_path_example:
  "resolve_path example_env None = ''/home/user/.sketchfab_credentials.json''"
  by (simp add: resolve_path_def default_credentials_file_def example_env_def path_join_def)

lemma default_path_write_fault:
  "resolve_path write_fault_env None = ''/home/user/.sketchfab_credentials.json''"
  by (simp add: resolve_path_def default_credentials_file_def write_fault_env_def
      example_env_def path_join_def)

lemma dirname_default_path:
  "dirname ''/home/user/.sketchfab_credentials.json'' = ''/home/user''"
  by (simp add: dirname_def rstrip_slash_def)

section \<open>The constructor's default expiry\<close>

text \<open>
  C9. A client constructed with a non-empty access token gets the expiry
  \<open>now + 2592000\<close> (30 days), where \<open>now\<close> is the clock's reading in the constructor.
  With a clock that is not negative this expiry is set (truthy), so the client is not in
  the no-expiry state, and \<^verbatim>\<open>ensure_valid_token\<close> on it compares the clock with the
  expiry: it turns to the refresh once the clock passes \<open>now + 2592000 - 300\<close>.
\<close>

theorem client_init_default_expiry:
  assumes "truthy tok" and "0 \<le> clock e (ticks w)"
  shows "token_expiry (fst (client_init e tok rt cid cs w)) = PFloat (clock e (ticks w) + 2592000)
    \<and> truthy (token_expiry (fst (client_init e tok rt cid cs w)))
    \<and> access_token (fst (client_init e tok rt cid cs w)) = tok
    \<and> (\<forall>w2. ensure_valid_token e (fst (client_init e tok rt cid cs w)) w2 =
          (if clock e (ticks w2) > clock e (ticks w) + 2592000 - 300
           then (let (ok, c2, w3) = refresh_access_token e (fst (client_init e tok rt cid cs w))
                                      (w2\<lparr>ticks := Suc (ticks w2)\<rparr>)
                 in (Inr ok, c2, w3))
           else (Inr True, fst (client_init e tok rt cid cs w), w2\<lparr>ticks := Suc (ticks w2)\<rparr>)))"
  using assms
  by (simp add: client_init_def time_time_def ensure_valid_token_def)

text \<open>C9, at the token \<^verbatim>\<open>"tok"\<close> and the clock 1700000000.\<close>

theorem client_init_default_expiry_witness:
  "truthy (PStr ''tok'') \<and> 0 \<le> clock example_env (ticks empty_world)
   \<and> token_expiry (fst (client_init example_env (PStr ''tok'') PNone PNone PNone empty_world))
       = PFloat 1702592000"
  using client_init_default_expiry [of "PStr ''tok''" example_env empty_world PNone PNone PNone]
  by (simp add: example_env_def empty_world_def)

section \<open>Token validity\<close>

text \<open>
  C5. When the expiry is unset (\<^verbatim>\<open>None\<close>) or 0, \<^verbatim>\<open>ensure_valid_token\<close> returns whether
  the access token is non-empty and changes nothing: the client and the world (the
  requests sent, the clock's readings, the files) are the ones it was given, so no
  refresh was attempted.
\<close>

theorem ensure_valid_token_no_expiry:
  assumes "token_expiry c = PNone \<or> token_expiry c = PInt 0 \<or> token_expiry c = PFloat 0"
  shows "ensure_valid_token e c w = (Inr (truthy (access_token c)), c, w)"
  using assms by (auto simp: ensure_valid_token_def)

text \<open>C5, at a client with a token and the expiry 0.\<close>

theorem ensure_valid_token_no_expiry_witness:
  "ensure_valid_token example_env (stale_client\<lparr>token_expiry := PInt 0\<rparr>) empty_world
     = (Inr True, stale_client\<lparr>token_expiry := PInt 0\<rparr>, empty_world)"
  using ensure_valid_token_no_expiry [of "stale_client\<lparr>token_expiry := PInt 0\<rparr>" example_env empty_world]
  by (simp add: stale_client_def)

text \<open>
  C1 as stated fails: for a client with a token that expired and no refresh token,
  \<^verbatim>\<open>ensure_valid_token\<close> returns \<^verbatim>\<open>False\<close>, the result of \<^verbatim>\<open>refresh_access_token\<close>.
\<close>

theorem ensure_valid_token_cannot_refresh_counterexample:
  "truthy (access_token stale_client)
   \<and> num_of (token_expiry stale_client) = Some 1600000000
   \<and> clock example_env (ticks empty_world) > 1600000000 - 300
   \<and> \<not> truthy (refresh_token stale_client)
   \<and> fst (ensure_valid_token example_env stale_client empty_world) = Inr False"
  by (simp add: stale_client_def example_env_def empty_world_def ensure_valid_token_def
      time_time_def refresh_access_token_def)

text \<open>
  C1, amended. For a client with a non-empty access token whose expiry is set and
  satisfies \<open>now > expiry - 300\<close>, when the refresh token, the client id or the client
  secret is missing, \<^verbatim>\<open>ensure_valid_token\<close> returns \<^verbatim>\<open>False\<close>, sends no request and
  leaves the client as it was. Its caller \<^verbatim>\<open>get_auth_headers\<close> ignores the result and
  attaches the existing token.
\<close>

theorem ensure_valid_token_cannot_refresh:
  assumes "truthy (access_token c)"
    and "num_of (token_expiry c) = Some expiry" and "expiry \<noteq> 0"
    and "clock e (ticks w) > expiry - 300"
    and "\<not> truthy (refresh_token c) \<or> \<not> truthy (client_id c) \<or> \<not> truthy (client_secret c)"
  shows "ensure_valid_token e c w = (Inr False, c, w\<lparr>ticks := Suc (ticks w)\<rparr>)
    \<and> sent (snd (snd (ensure_valid_token e c w))) = sent w
    \<and> get_auth_headers e c w =
        (Inr [(''Authorization'', ''Bearer '' @ py_str e (access_token c))], c,
         w\<lparr>ticks := Suc (ticks w)\<rparr>)"
proof -
  have t: "truthy (token_expiry c)"
    using assms(2,3) by (cases "token_expiry c") (auto split: if_splits)
  have r: "refresh_access_token e c (w\<lparr>ticks := Suc (ticks w)\<rparr>)
             = (False, c, w\<lparr>ticks := Suc (ticks w)\<rparr>)"
    using assms(5) by (auto simp: refresh_access_token_def)
  have v: "ensure_valid_token e c w = (Inr False, c, w\<lparr>ticks := Suc (ticks w)\<rparr>)"
    using assms(1,2,4) t r by (simp add: ensure_valid_token_def time_time_def)
  show ?thesis using v assms(1) by (simp add: get_auth_headers_def)
qed

text \<open>C1, amended, at the client of the counterexample.\<close>

theorem ensure_valid_token_cannot_refresh_witness:
  "truthy (access_token stale_client)
   \<and> num_of (token_expiry stale_client) = Some 1600000000
   \<and> ensure_valid_token example_env stale_client empty_world
       = (Inr False, stale_client, empty_world\<lparr>ticks := Suc 0\<rparr>)"
  using ensure_valid_token_cannot_refresh [of stale_client 1600000000 example_env empty_world]
  by (simp add: stale_client_def example_env_def empty_world_def)

section \<open>Refresh\<close>

text \<open>
  C2 as stated fails: the token endpoint answers with a body whose \<^verbatim>\<open>expires_in\<close> is a
  string. \<^verbatim>\<open>refresh_access_token\<close> returns \<^verbatim>\<open>False\<close>, and the access token was
  overwritten before the addition raised.
\<close>

theorem refresh_access_token_failure_counterexample:
  "fst (refresh_access_token bad_ttl_env refreshable_client empty_world) = False
   \<and> access_token (fst (snd (refresh_access_token bad_ttl_env refreshable_client empty_world)))
       = PStr ''new''
   \<and> access_token refreshable_client = PStr ''old''"
  by (simp add: bad_ttl_env_def example_env_def refreshable_client_def stale_client_def
      empty_world_def refresh_access_token_def send_def json_reply_def raise_for_status_def
      response_json_def apply_token_data_def dict_get_def time_time_def)

text \<open>
  C2, amended. When the refresh request fails in transport, is answered with a status
  from 400 to 599, or is answered with a body that is not JSON or not a JSON object,
  \<^verbatim>\<open>refresh_access_token\<close> returns \<^verbatim>\<open>False\<close>, all five fields of the client are the
  ones before the call, and no file was written.
\<close>

theorem refresh_access_token_failure:
  assumes "no_token_data (http e (length (sent w)) (Post oauth_url (refresh_form c)))"
  shows "fst (refresh_access_token e c w) = False
    \<and> fst (snd (refresh_access_token e c w)) = c
    \<and> files (snd (snd (refresh_access_token e c w))) = files w"
  using assms
  by (auto simp: refresh_access_token_def no_token_data_def send_def raise_for_status_def
      response_json_def apply_token_data_def is_dict_def
      split: http_result.splits option.splits pyval.splits if_splits)

text \<open>C2, amended, at a transport failure.\<close>

theorem refresh_access_token_failure_witness:
  "no_token_data (http example_env (length (sent empty_world))
                    (Post oauth_url (refresh_form refreshable_client)))
   \<and> refresh_access_token example_env refreshable_client empty_world
       = (False, refreshable_client,
          empty_world\<lparr>sent := [Post oauth_url (refresh_form refreshable_client)]\<rparr>)"
  using refresh_access_token_failure [of example_env empty_world refreshable_client]
  by (simp add: example_env_def empty_world_def no_token_data_def refresh_access_token_def
      refreshable_client_def stale_client_def send_def)

section \<open>Loading credentials\<close>

lemma override_unset: "unset a \<Longrightarrow> unset (getenv e var) \<Longrightarrow> override e a var v = v"
  by (auto simp: override_def unset_def split: option.splits)

lemma file_credentials_unusable:
  "\<not> path_exists w p \<or> malformed e p w \<Longrightarrow> file_credentials e p w = empty_credentials"
  by (auto simp: file_credentials_def malformed_def is_dict_def split: sum.splits pyval.splits)

lemma load_from_file_unusable:
  "\<not> path_exists w (resolve_path e path) \<or> malformed e (resolve_path e path) w
   \<Longrightarrow> load_from_file e path w = (None, w)"
  by (auto simp: load_from_file_def malformed_def is_dict_def Let_def
      split: sum.splits pyval.splits)

text \<open>
  C3 as stated fails for \<^verbatim>\<open>load_from_file\<close>: where no file exists it returns \<^verbatim>\<open>None\<close>,
  no client at all, not a credential with empty fields.
\<close>

theorem load_from_file_counterexample:
  "\<not> path_exists empty_world (resolve_path example_env None)
   \<and> fst (load_from_file example_env None empty_world) = None"
  by (simp add: load_from_file_def path_exists_def empty_world_def)

text \<open>
  C3, amended. When the credentials file does not exist, or cannot be read or parsed,
  or holds no JSON object, \<^verbatim>\<open>get_oauth_credentials\<close> raises nothing and takes nothing
  from the file: each token, id and secret is the command line's or the environment's
  value or the empty string, and the expiry is 0; with no such value all five fields
  are empty. \<^verbatim>\<open>load_from_file\<close> returns \<^verbatim>\<open>None\<close> then, also without raising.
\<close>

theorem unusable_credentials_file:
  assumes "\<not> path_exists w (resolve_path e (credentials_file a))
           \<or> malformed e (resolve_path e (credentials_file a)) w"
  shows "get_oauth_credentials e a w =
           (Inr [(''access_token'',
                    override e (sketchfab_access_token a) ''SKETCHFAB_ACCESS_TOKEN'' (PStr '''')),
                 (''refresh_token'',
                    override e (sketchfab_refresh_token a) ''SKETCHFAB_REFRESH_TOKEN'' (PStr '''')),
                 (''client_id'',
                    override e (sketchfab_client_id a) ''SKETCHFAB_CLIENT_ID'' (PStr '''')),
                 (''client_secret'',
                    override e (sketchfab_client_secret a) ''SKETCHFAB_CLIENT_SECRET'' (PStr '''')),
                 (''token_expiry'', PInt 0)], w)
     \<and> (no_overrides e a \<longrightarrow> get_oauth_credentials e a w = (Inr empty_credentials, w))
     \<and> load_from_file e (credentials_file a) w = (None, w)"
proof -
  have f: "file_credentials e (resolve_path e (credentials_file a)) w = empty_credentials"
    using assms by (rule file_credentials_unusable)
  have g: "get_oauth_credentials e a w =
           (Inr [(''access_token'',
                    override e (sketchfab_access_token a) ''SKETCHFAB_ACCESS_TOKEN'' (PStr '''')),
                 (''refresh_token'',
                    override e (sketchfab_refresh_token a) ''SKETCHFAB_REFRESH_TOKEN'' (PStr '''')),
                 (''client_id'',
                    override e (sketchfab_client_id a) ''SKETCHFAB_CLIENT_ID'' (PStr '''')),
                 (''client_secret'',
                    override e (sketchfab_client_secret a) ''SKETCHFAB_CLIENT_SECRET'' (PStr '''')),
                 (''token_expiry'', PInt 0)], w)"
    by (simp add: get_oauth_credentials_def f Let_def) (simp add: empty_credentials_def dict_get_def)
  have n: "no_overrides e a \<longrightarrow> get_oauth_credentials e a w = (Inr empty_credentials, w)"
    by (simp add: g no_overrides_def override_unset empty_credentials_def)
  show ?thesis using g n load_from_file_unusable [OF assms] by simp
qed

text \<open>C3, amended, at a file that was cut short and at a missing file.\<close>

theorem unusable_credentials_file_witness:
  "malformed example_env (resolve_path example_env (credentials_file no_args)) broken_world
   \<and> no_overrides example_env no_args
   \<and> get_oauth_credentials example_env no_args broken_world = (Inr empty_credentials, broken_world)
   \<and> \<not> path_exists empty_world (resolve_path example_env (credentials_file no_args))
   \<and> get_oauth_credentials example_env no_args empty_world = (Inr empty_credentials, empty_world)"
proof -
  have p: "resolve_path example_env (credentials_file no_args)
             = ''/home/user/.sketchfab_credentials.json''"
    by (simp add: no_args_def default_path_example)
  have m: "malformed example_env (resolve_path example_env (credentials_file no_args)) broken_world"
    by (simp add: p malformed_def read_json_def broken_world_def empty_world_def example_env_def)
  have x: "\<not> path_exists empty_world (resolve_path example_env (credentials_file no_args))"
    by (simp add: path_exists_def empty_world_def)
  have n: "no_overrides example_env no_args"
    by (simp add: no_overrides_def no_args_def unset_def example_env_def)
  show ?thesis
    using unusable_credentials_file [of broken_world example_env no_args, THEN conjunct2]
      unusable_credentials_file [of empty_world example_env no_args, THEN conjunct2] m x n
    by simp
qed

section \<open>The search limit\<close>

lemma py_min_24_int: "py_min_24 (PInt n) = Inr (PInt (min n 24))"
  by (simp add: py_min_24_def min_def)

lemma search_sent:
  "search_params q l = Inr ps \<Longrightarrow>
     sent (snd (search e q l w)) = sent w @ [Get (api_url @ ''/search'') ps []]"
  by (simp add: search_def send_def split: http_result.splits sum.splits)

lemma search_limit_positive:
  assumes "1 \<le> n"
  shows "sent (snd (search e q (PInt n) w)) =
           sent w @ [Get (api_url @ ''/search'') [(''q'', q), (''count'', PInt (min n 24))] []]"
proof -
  have p: "search_params q (PInt n) = Inr [(''q'', q), (''count'', PInt (min n 24))]"
    using assms by (simp add: search_params_def py_min_24_int)
  show ?thesis using search_sent [OF p] by simp
qed

lemma search_limit_absent:
  assumes "map_of inputs ''query'' = Some q" and "map_of inputs ''limit'' = None"
  shows "sent (snd (snd (handle_invoke_tool e tok c search_tool_name inputs w))) =
           sent w @ [Get (api_url @ ''/search'') [(''q'', q), (''count'', PInt 10)] []]"
proof -
  have p: "search_params q (PInt 10) = Inr [(''q'', q), (''count'', PInt 10)]"
    by (simp add: search_params_def py_min_24_int)
  show ?thesis
    using assms search_sent [OF p, of e w]
    by (auto simp: handle_invoke_tool_def invoke_def py_index_def dict_get_def split: prod.splits)
qed

lemma search_limit_zero:
  "sent (snd (search e q (PInt 0) w)) = sent w @ [Get (api_url @ ''/search'') [(''q'', q)] []]"
  by (rule search_sent) (simp add: search_params_def)

text \<open>
  C4 as stated fails: with the limit 0 the request of \<^verbatim>\<open>search\<close> carries the query
  only. No \<^verbatim>\<open>count\<close> is sent, so the limit in effect is the provider's, not 10.
\<close>

theorem search_limit_counterexample:
  "sent (snd (search example_env (PStr ''car'') (PInt 0) empty_world)) =
     [Get ''https://api.sketchfab.com/v3/search'' [(''q'', PStr ''car'')] []]"
  by (simp add: search_def search_params_def send_def api_url_def example_env_def empty_world_def)

text \<open>
  C4, amended. For a limit \<open>n \<ge> 1\<close> the request of \<^verbatim>\<open>search\<close> carries the count
  \<open>min n 24\<close>, which lies between 1 and 24. When the tool input has no limit, the handler
  passes 10 and the request carries the count 10. With the limit 0 the request carries no
  count.
\<close>

theorem search_limit:
  "(1 \<le> n \<longrightarrow>
      sent (snd (search e q (PInt n) w)) =
        sent w @ [Get (api_url @ ''/search'') [(''q'', q), (''count'', PInt (min n 24))] []]
      \<and> 1 \<le> min n 24 \<and> min n 24 \<le> 24)
   \<and> (map_of inputs ''query'' = Some q \<and> map_of inputs ''limit'' = None \<longrightarrow>
        sent (snd (snd (handle_invoke_tool e tok c search_tool_name inputs w))) =
          sent w @ [Get (api_url @ ''/search'') [(''q'', q), (''count'', PInt 10)] []])
   \<and> sent (snd (search e q (PInt 0) w)) = sent w @ [Get (api_url @ ''/search'') [(''q'', q)] []]"
  using search_limit_positive [of n e q w] search_limit_absent [of inputs q e tok c w]
    search_limit_zero [of e q w]
  by simp

text \<open>C4, amended, at the limit 30 and at an input without a limit.\<close>

theorem search_limit_witness:
  "(1::int) \<le> 30
   \<and> sent (snd (search example_env (PStr ''car'') (PInt 30) empty_world)) =
       [Get (api_url @ ''/search'') [(''q'', PStr ''car''), (''count'', PInt 24)] []]
   \<and> map_of [(''query'', PStr ''car'')] ''query'' = Some (PStr ''car'')
   \<and> map_of [(''query'', PStr ''car'')] ''limit'' = None
   \<and> sent (snd (snd (handle_invoke_tool example_env PNone stale_client search_tool_name
                        [(''query'', PStr ''car'')] empty_world))) =
       [Get (api_url @ ''/search'') [(''q'', PStr ''car''), (''count'', PInt 10)] []]"
  using search_limit [of 30 example_env "PStr ''car''" empty_world "[(''query'', PStr ''car'')]"
      PNone stale_client]
  by (simp add: empty_world_def)

section \<open>Saving credentials\<close>

lemma store_succeeds:
  assumes "can_store e (resolve_path e path) w"
  shows "store_updated_credentials e c path w =
           (True, w\<lparr>dirs := dirs w \<union> set (ancestors (dirname (resolve_path e path)))
                              \<union> {dirname (resolve_path e path)},
                    files := (files w)(resolve_path e path \<mapsto> Json (credentials_dict c))\<rparr>)"
  using assms
  by (simp add: can_store_def store_updated_credentials_def makedirs_def write_json_def Let_def)

lemma store_fails_before_writing:
  assumes "io_fails e (Makedirs (dirname (resolve_path e path)))
           \<or> io_fails e (OpenWrite (resolve_path e path))"
  shows "fst (store_updated_credentials e c path w) = False
     \<and> files (snd (store_updated_credentials e c path w)) = files w"
  using assms
  by (auto simp: store_updated_credentials_def makedirs_def write_json_def Let_def)

text \<open>
  C6 as stated fails: the file is opened for writing in place. When the write fails
  after the file was opened, a valid credentials file that existed before holds a
  cut-off text afterwards.
\<close>

theorem store_updated_credentials_counterexample:
  "files saved_world ''/home/user/.sketchfab_credentials.json''
     = Some (Json (credentials_dict refreshable_client))
   \<and> fst (store_updated_credentials write_fault_env
            (refreshable_client\<lparr>access_token := PStr ''new''\<rparr>) None saved_world) = False
   \<and> files (snd (store_updated_credentials write_fault_env
                   (refreshable_client\<lparr>access_token := PStr ''new''\<rparr>) None saved_world))
       ''/home/user/.sketchfab_credentials.json''
     = Some (Truncated (credentials_dict (refreshable_client\<lparr>access_token := PStr ''new''\<rparr>)))"
  unfolding store_updated_credentials_def default_path_write_fault dirname_default_path Let_def
  by (simp add: makedirs_def write_json_def saved_world_def empty_world_def write_fault_env_def
      example_env_def ancestors_def)

text \<open>
  C6, amended. \<^verbatim>\<open>store_updated_credentials\<close> serialises exactly five fields, an absent
  or empty token, id or secret as the empty string and an absent expiry as 0. When the
  directory of the path can be created and the file can be opened and written, it
  returns \<^verbatim>\<open>True\<close>, the directory exists and the file holds the serialised credentials,
  whatever it held before. When creating the directory or opening the file fails, it
  returns \<^verbatim>\<open>False\<close> and every file is as before. The file is written in place: nothing
  is promised about its content when the write fails after it was opened.
\<close>

theorem store_updated_credentials_overwrites:
  "credentials_dict c =
     PDict [(''access_token'', if truthy (access_token c) then access_token c else PStr ''''),
            (''refresh_token'', if truthy (refresh_token c) then refresh_token c else PStr ''''),
            (''client_id'', if truthy (client_id c) then client_id c else PStr ''''),
            (''client_secret'', if truthy (client_secret c) then client_secret c else PStr ''''),
            (''token_expiry'', if truthy (token_expiry c) then token_expiry c else PInt 0)]
   \<and> (can_store e (resolve_path e path) w \<longrightarrow>
        store_updated_credentials e c path w =
          (True, w\<lparr>dirs := dirs w \<union> set (ancestors (dirname (resolve_path e path)))
                             \<union> {dirname (resolve_path e path)},
                   files := (files w)(resolve_path e path \<mapsto> Json (credentials_dict c))\<rparr>))
   \<and> (io_fails e (Makedirs (dirname (resolve_path e path)))
        \<or> io_fails e (OpenWrite (resolve_path e path)) \<longrightarrow>
        fst (store_updated_credentials e c path w) = False
        \<and> files (snd (store_updated_credentials e c path w)) = files w)"
  using store_succeeds [of e path w c] store_fails_before_writing [of e path c w]
  by (simp add: credentials_dict_def or_else_def)

text \<open>C6, amended, at the default path in a world without files, and at a directory
  that cannot be created.\<close>

theorem store_updated_credentials_overwrites_witness:
  "can_store example_env (resolve_path example_env None) empty_world
   \<and> fst (store_updated_credentials example_env stale_client None empty_world) = True
   \<and> files (snd (store_updated_credentials example_env stale_client None empty_world))
       ''/home/user/.sketchfab_credentials.json''
     = Some (Json (credentials_dict stale_client))
   \<and> io_fails (example_env\<lparr>io_fails := (\<lambda>op. True)\<rparr>)
       (Makedirs (dirname (resolve_path (example_env\<lparr>io_fails := (\<lambda>op. True)\<rparr>) None)))
   \<and> fst (store_updated_credentials (example_env\<lparr>io_fails := (\<lambda>op. True)\<rparr>) stale_client None
            saved_world) = False"
proof -
  have s: "can_store example_env (resolve_path example_env None) empty_world"
    unfolding can_store_def default_path_example dirname_default_path
    by (simp add: empty_world_def example_env_def ancestors_def)
  show ?thesis
    using s
      store_updated_credentials_overwrites [of stale_client example_env None empty_world,
        THEN conjunct2, THEN conjunct1]
      store_updated_credentials_overwrites [of stale_client "example_env\<lparr>io_fails := (\<lambda>op. True)\<rparr>"
        None saved_world, THEN conjunct2, THEN conjunct2]
    by (simp add: default_path_example)
qed

section \<open>The requests a call sends\<close>

lemma store_sent: "store_updated_credentials e c p w = (ok, w') \<Longrightarrow> sent w' = sent w"
  by (auto simp: store_updated_credentials_def makedirs_def write_json_def Let_def
      split: sum.splits prod.splits if_splits)

lemma apply_token_data_sent: "apply_token_data e c v w = (ok, c', w') \<Longrightarrow> sent w' = sent w"
  by (auto simp: apply_token_data_def time_time_def Let_def dest!: store_sent
      split: pyval.splits option.splits prod.splits)

lemma refresh_sent:
  "refresh_access_token e c w = (ok, c', w') \<Longrightarrow>
     sent w' = sent w \<or> sent w' = sent w @ [Post oauth_url (refresh_form c)]"
  by (auto simp: refresh_access_token_def send_def dest!: apply_token_data_sent
      split: if_splits http_result.splits sum.splits)

lemma ensure_valid_token_sent:
  "ensure_valid_token e c w = (r, c', w') \<Longrightarrow>
     sent w' = sent w \<or> sent w' = sent w @ [Post oauth_url (refresh_form c)]"
  by (auto simp: ensure_valid_token_def time_time_def dest!: refresh_sent
      split: if_splits option.splits prod.splits)

lemma get_auth_headers_sent:
  "get_auth_headers e c w = (r, c', w') \<Longrightarrow>
     sent w' = sent w \<or> sent w' = sent w @ [Post oauth_url (refresh_form c)]"
  by (auto simp: get_auth_headers_def dest!: ensure_valid_token_sent
      split: prod.splits sum.splits)

lemma authenticated_get_sent:
  "authenticated_get e c url prefix w = (r, c', w') \<Longrightarrow>
     \<exists>rs. sent w' = sent w @ rs \<and>
          (\<forall>rq \<in> set rs. rq = Post oauth_url (refresh_form c) \<or> (\<exists>hs. rq = Get url [] hs))"
  by (auto simp: authenticated_get_def send_def dest!: get_auth_headers_sent
      split: prod.splits sum.splits http_result.splits)

lemma model_url_not_download_url: "model_url e m \<noteq> download_url e m"
  by (simp add: model_url_def download_url_def)

lemma get_model_no_download_request:
  assumes "get_model e c model_id w = (r, c1, w1)"
  shows "Get (download_url e model_id) [] hs \<notin> set (drop (length (sent w)) (sent w1))"
proof -
  obtain rs where rs: "sent w1 = sent w @ rs"
    "\<forall>rq \<in> set rs. rq = Post oauth_url (refresh_form c)
        \<or> (\<exists>hs. rq = Get (model_url e model_id) [] hs)"
    using assms authenticated_get_sent unfolding get_model_def by blast
  have "Get (download_url e model_id) [] hs \<notin> set rs"
    using rs(2) model_url_not_download_url [of e model_id] by auto
  then show ?thesis using rs(1) by simp
qed

section \<open>The tool for the GLTF address\<close>

text \<open>
  C7. When the tool \<^verbatim>\<open>threejs_get_gltf_model_url\<close> is enabled and the fetched detail of
  the model has no true \<^verbatim>\<open>isDownloadable\<close>, \<^verbatim>\<open>handle_invoke_tool\<close> returns one text
  payload \<^verbatim>\<open>{"error": "Model '<name>' is not downloadable."}\<close> with the model's name
  (the model id when the detail has no name). The client and the world it returns are
  the ones \<^verbatim>\<open>get_model\<close> left, so nothing of \<^verbatim>\<open>get_download_link\<close> took place, and no
  request for the model's download links is among the requests sent during the call.
\<close>

theorem not_downloadable:
  assumes "truthy tok"
    and "map_of inputs ''model_id'' = Some model_id"
    and "get_model e c model_id w = (Inr (PDict m), c1, w1)"
    and "\<not> truthy (dict_get m ''isDownloadable'' (PBool False))"
  shows "handle_invoke_tool e tok c get_gltf_url_tool_name inputs w =
           ([TextContent (PDict [(''error'',
               PStr (''Model '' @ [CHR 0x27] @ py_str e (dict_get m ''name'' model_id) @
                     [CHR 0x27] @ '' is not downloadable.''))])], c1, w1)
    \<and> (\<forall>hs. Get (download_url e model_id) [] hs \<notin> set (drop (length (sent w)) (sent w1)))"
proof -
  have n: "get_gltf_url_tool_name \<noteq> search_tool_name"
    by (simp add: get_gltf_url_tool_name_def search_tool_name_def)
  have h: "handle_invoke_tool e tok c get_gltf_url_tool_name inputs w =
           ([TextContent (PDict [(''error'',
               PStr (''Model '' @ [CHR 0x27] @ py_str e (dict_get m ''name'' model_id) @
                     [CHR 0x27] @ '' is not downloadable.''))])], c1, w1)"
    using assms n
    by (simp add: handle_invoke_tool_def invoke_def get_gltf_model_url_def py_index_def
        quoted_def)
  show ?thesis using h get_model_no_download_request [OF assms(3)] by simp
qed

text \<open>C7, at a model named Chair whose detail says \<^verbatim>\<open>"isDownloadable": false\<close>.\<close>

theorem not_downloadable_witness:
  "truthy (PStr ''old'')
   \<and> map_of [(''model_id'', PStr ''abc'')] ''model_id'' = Some (PStr ''abc'')
   \<and> get_model model_env fresh_client (PStr ''abc'') empty_world =
       (Inr (PDict [(''name'', PStr ''Chair''), (''isDownloadable'', PBool False)]), fresh_client,
        empty_world\<lparr>sent := [Get ''https://api.sketchfab.com/v3/models/abc'' []
                                 [(''Authorization'', ''Bearer old'')]]\<rparr>)
   \<and> fst (handle_invoke_tool model_env (PStr ''old'') fresh_client ''threejs_get_gltf_model_url''
            [(''model_id'', PStr ''abc'')] empty_world) =
       [TextContent (PDict [(''error'', PStr ''Model 'Chair' is not downloadable.'')])]"
proof -
  have g: "get_model model_env fresh_client (PStr ''abc'') empty_world =
       (Inr (PDict [(''name'', PStr ''Chair''), (''isDownloadable'', PBool False)]), fresh_client,
        empty_world\<lparr>sent := [Get ''https://api.sketchfab.com/v3/models/abc'' []
                                 [(''Authorization'', ''Bearer old'')]]\<rparr>)"
    by (simp add: get_model_def authenticated_get_def get_auth_headers_def ensure_valid_token_def
        fresh_client_def stale_client_def model_env_def example_env_def empty_world_def send_def
        json_reply_def raise_for_status_def response_json_def model_url_def api_url_def py_str_def)
  show ?thesis
    using g not_downloadable [of "PStr ''old''" "[(''model_id'', PStr ''abc'')]" "PStr ''abc''"
        model_env fresh_client empty_world
        "[(''name'', PStr ''Chair''), (''isDownloadable'', PBool False)]" fresh_client
        "empty_world\<lparr>sent := [Get ''https://api.sketchfab.com/v3/models/abc'' []
                                 [(''Authorization'', ''Bearer old'')]]\<rparr>"]
    by (simp add: dict_get_def py_str_def get_gltf_url_tool_name_def)
qed

text \<open>
  C10. When no access token was found at startup, invoking
  \<^verbatim>\<open>threejs_get_gltf_model_url\<close> returns the single text payload
  \<^verbatim>\<open>{"error": "Unknown tool: threejs_get_gltf_model_url"}\<close> and changes nothing; a name
  that is not a tool's gets the payload of the same shape with its own name. The tool is
  not listed either.
\<close>

theorem unknown_tool_without_token:
  assumes "\<not> truthy tok"
  shows "handle_invoke_tool e tok c get_gltf_url_tool_name inputs w =
           ([TextContent (PDict [(''error'', PStr ''Unknown tool: threejs_get_gltf_model_url'')])],
            c, w)
    \<and> (\<forall>name. name \<noteq> search_tool_name \<and> name \<noteq> get_gltf_url_tool_name \<longrightarrow>
          handle_invoke_tool e tok c name inputs w =
            ([TextContent (PDict [(''error'', PStr (''Unknown tool: '' @ name))])], c, w))
    \<and> handle_list_tools tok = [search_tool_name]"
  using assms
  by (simp add: handle_invoke_tool_def invoke_def error_content_def str_exn_def
      handle_list_tools_def get_gltf_url_tool_name_def search_tool_name_def)

text \<open>C10, at the empty access token that startup yields when none is configured.\<close>

theorem unknown_tool_without_token_witness:
  "\<not> truthy (PStr '''')
   \<and> handle_invoke_tool example_env (PStr '''') fresh_client ''threejs_get_gltf_model_url''
        [(''model_id'', PStr ''abc'')] empty_world =
       ([TextContent (PDict [(''error'', PStr ''Unknown tool: threejs_get_gltf_model_url'')])],
        fresh_client, empty_world)"
  using unknown_tool_without_token [of "PStr ''''" example_env fresh_client
      "[(''model_id'', PStr ''abc'')]" empty_world]
  by (simp add: get_gltf_url_tool_name_def)

section \<open>Archive detection\<close>











end
